theory Spec2Isabelle
  imports Main "HOL-Library.Log_Nat"
begin

section \<open>The discrepancy engine of the client (Evaluations.tsx)\<close>

subsection \<open>The values of the grade table\<close>

text \<open>
  \<^verbatim>\<open>compareGoal\<close> looks grades up in an object literal,
  \<^verbatim>\<open>const hierarchy: Record<string, number> = { MA: 3, MPA: 2, MANA: 1 }\<close>.
  At run time the literal is an ordinary JavaScript object: a lookup \<^verbatim>\<open>hierarchy[k]\<close>
  that finds no own property goes on to \<^verbatim>\<open>Object.prototype\<close>, so the lookup
  yields a number for the three grades, an object or a function for the property names of
  \<^verbatim>\<open>Object.prototype\<close>, and \<^verbatim>\<open>undefined\<close> for every other string.

  A value of the table is therefore a number or an object. An object is kept with the
  string that \<^verbatim>\<open>ToPrimitive\<close> gives for it, which is all that \<^verbatim>\<open><\<close>
  reads of it.
\<close>

datatype jsval = JNum nat | JObj string

text \<open>
  The string of a built-in function has the form
  \<^verbatim>\<open>function NAME() { [native code] }\<close>; that of \<^verbatim>\<open>Object.prototype\<close>
  itself is \<^verbatim>\<open>[object Object]\<close>.
\<close>

definition native_function :: "string \<Rightarrow> jsval" where
  "native_function n = JObj (''function '' @ n @ ''() { [native code] }'')"

definition prototype_methods :: "string list" where
  "prototype_methods =
     [''hasOwnProperty'', ''isPrototypeOf'', ''propertyIsEnumerable'',
      ''toLocaleString'', ''toString'', ''valueOf'',
      ''__defineGetter__'', ''__defineSetter__'',
      ''__lookupGetter__'', ''__lookupSetter__'']"

definition object_prototype :: "string \<Rightarrow> jsval option" where
  "object_prototype k =
     (if k = ''constructor'' then Some (native_function ''Object'')
      else if k = ''__proto__'' then Some (JObj ''[object Object]'')
      else if k \<in> set prototype_methods then Some (native_function k)
      else None)"

definition hierarchy :: "string \<Rightarrow> jsval option" where
  "hierarchy k =
     (if k = ''MA'' then Some (JNum 3)
      else if k = ''MPA'' then Some (JNum 2)
      else if k = ''MANA'' then Some (JNum 1)
      else object_prototype k)"

text \<open>Truthiness: a number is falsy when it is zero, an object never is.\<close>

fun truthy :: "jsval \<Rightarrow> bool" where
  "truthy (JNum n) = (n \<noteq> 0)"
| "truthy (JObj s) = True"

text \<open>
  The relational operator \<^verbatim>\<open><\<close>: two numbers compare as numbers; two objects
  both become strings and compare as strings, code unit by code unit; a number against
  an object compares the number with \<^verbatim>\<open>NaN\<close>, which is false.
\<close>

fun str_less :: "string \<Rightarrow> string \<Rightarrow> bool" where
  "str_less [] [] = False"
| "str_less [] (y # ys) = True"
| "str_less (x # xs) [] = False"
| "str_less (x # xs) (y # ys) =
     (if (of_char x :: nat) < of_char y then True
      else if (of_char y :: nat) < of_char x then False
      else str_less xs ys)"

fun js_less :: "jsval \<Rightarrow> jsval \<Rightarrow> bool" where
  "js_less (JNum a) (JNum b) = (a < b)"
| "js_less (JObj a) (JObj b) = str_less a b"
| "js_less (JNum a) (JObj b) = False"
| "js_less (JObj a) (JNum b) = False"

text \<open>
  The string of a whole number, as a template string and a property key have it: its
  decimal digits while the number is below \<open>10\<^sup>2\<^sup>1\<close>. From there on JavaScript
  writes an exponent, which \<open>digits\<close> does not; the numbers below are years, semesters
  and ranks.
\<close>

fun digits :: "nat \<Rightarrow> string" where
  "digits n =
     (if n < 10 then [char_of (48 + n)]
      else digits (n div 10) @ [char_of (48 + n mod 10)])"

subsection \<open>compareGoal\<close>

text \<open>
  \<^verbatim>\<open>
  const t = teacherEval && hierarchy[teacherEval] ? hierarchy[teacherEval] : null;
  const s = selfEval && hierarchy[selfEval] ? hierarchy[selfEval] : null;
  if (t === null || s === null) return false;
  return t < s;
  \<close>
  An argument is a string, \<^verbatim>\<open>null\<close> or \<^verbatim>\<open>undefined\<close>; the last two are
  \<open>None\<close>. \<open>rank_of\<close> is the right-hand side of the first two lines.
\<close>

definition rank_of :: "string option \<Rightarrow> jsval option" where
  "rank_of g =
     (case g of
        None \<Rightarrow> None
      | Some k \<Rightarrow>
          if k = [] then None
          else (case hierarchy k of
                  None \<Rightarrow> None
                | Some v \<Rightarrow> if truthy v then Some v else None))"

definition compareGoal :: "string option \<Rightarrow> string option \<Rightarrow> bool" where
  "compareGoal teacherEval selfEval =
     (case rank_of teacherEval of
        None \<Rightarrow> False
      | Some t \<Rightarrow>
          (case rank_of selfEval of
             None \<Rightarrow> False
           | Some s \<Rightarrow> js_less t s))"

text \<open>
  The specification's reading of the same function, for comparison: a rank for each of
  the three levels and none for anything else.
\<close>

definition spec_rank :: "string \<Rightarrow> nat option" where
  "spec_rank g =
     (if g = ''MANA'' then Some 1
      else if g = ''MPA'' then Some 2
      else if g = ''MA'' then Some 3
      else None)"

definition spec_compareGoal :: "string \<Rightarrow> string \<Rightarrow> bool" where
  "spec_compareGoal t s =
     (case spec_rank t of
        None \<Rightarrow> False
      | Some a \<Rightarrow> (case spec_rank s of None \<Rightarrow> False | Some b \<Rightarrow> a < b))"

subsection \<open>Numbers: IEEE double precision\<close>

text \<open>
  A JavaScript number is an IEEE 754 double. Every number that occurs below is a
  rational; an arithmetic operation computes the exact rational result and rounds it to
  the nearest double, ties to the even significand. \<open>fl\<close> is that rounding: to a
  significand of 53 bits from \<open>2\<^sup>-\<^sup>1\<^sup>0\<^sup>2\<^sup>2\<close> on, and below to the nearest multiple of
  \<open>2\<^sup>-\<^sup>1\<^sup>0\<^sup>7\<^sup>4\<close>, the subnormal doubles. It has no bound from above: a result beyond
  the largest double, which is \<^verbatim>\<open>Infinity\<close> in JavaScript, is a number beyond the
  largest double here. The theorems below are about numbers up to \<open>2\<^sup>5\<^sup>3\<close>.
\<close>

definition pow2 :: "int \<Rightarrow> rat" where
  "pow2 k = (if 0 \<le> k then 2 ^ nat k else 1 / 2 ^ nat (- k))"

text \<open>The binade of a positive \<open>x\<close>: the \<open>e\<close> with \<open>2\<^sup>e \<le> x < 2\<^sup>e\<^sup>+\<^sup>1\<close>.\<close>

definition binade :: "rat \<Rightarrow> int" where
  "binade x = (case quotient_of x of (a, b) \<Rightarrow>
     (let k = bitlen a - bitlen b in if pow2 k \<le> x then k else k - 1))"

definition round_even :: "rat \<Rightarrow> int" where
  "round_even x =
     (let f = \<lfloor>x\<rfloor>; r = x - of_int f
      in if r < 1 / 2 then f
         else if 1 / 2 < r then f + 1
         else if even f then f else f + 1)"

definition fl :: "rat \<Rightarrow> rat" where
  "fl x =
     (if x = 0 then 0
      else (let e = max (binade \<bar>x\<bar>) (- 1022); m = round_even (\<bar>x\<bar> * pow2 (52 - e))
            in sgn x * of_int m * pow2 (e - 52)))"





subsection \<open>getStudentDiscrepancyInfo\<close>

















definition example_goals :: "string list" where
  "example_goals = [''G1'', ''G2'', ''G3'', ''G4'', ''G5'', ''G6'']"









subsection \<open>The scheduler's target time\<close>



















section \<open>The server: students, enrollments and classes\<close>

subsection \<open>Student and Enrollment\<close>

text \<open>
  Modelled from the spec: the class \<^verbatim>\<open>Student\<close> (models/Student.ts) is not among the
  sources. The specification gives a student a name, a CPF that is their identity, and an
  email.
\<close>

record student =
  student_name :: string
  student_cpf :: string
  student_email :: string

text \<open>
  Modelled from the spec: \<^verbatim>\<open>Student.getCPF()\<close>, which \<^verbatim>\<open>Class.ts\<close> calls, is not
  among the sources. It returns the CPF that is the identity of the student.
\<close>

definition getCPF :: "student \<Rightarrow> string" where
  "getCPF s = student_cpf s"

text \<open>
  Modelled from the spec: the class \<^verbatim>\<open>Enrollment\<close> (models/Enrollment.ts) is not
  among the sources. The specification gives an enrollment its student and two keyed
  collections of grades, the teacher's and the student's own, with at most one grade for
  a goal in each; a collection is a list of (goal, grade) pairs in the order of entry.
\<close>

record enrollment =
  student :: student
  teacherEvaluations :: "(string \<times> string) list"
  selfEvaluations :: "(string \<times> string) list"

text \<open>
  Modelled from the spec: \<^verbatim>\<open>Enrollment.getStudent()\<close>, which \<^verbatim>\<open>Class.ts\<close> calls,
  is not among the sources. It returns the student of the enrollment.
\<close>

definition getStudent :: "enrollment \<Rightarrow> student" where
  "getStudent e = student e"

text \<open>
  Modelled from the spec: the constructor \<^verbatim>\<open>new Enrollment(student)\<close> is not among
  the sources. The specification has enrolling create an enrollment whose two
  collections of grades are empty.
\<close>

definition Enrollment_new :: "student \<Rightarrow> enrollment" where
  "Enrollment_new s = \<lparr>student = s, teacherEvaluations = [], selfEvaluations = []\<rparr>"

text \<open>
  Modelled from the spec: the JSON form of a student and of an enrollment is written by
  \<^verbatim>\<open>Student.toJSON\<close> and \<^verbatim>\<open>Enrollment.toJSON\<close>, which are not among the
  sources. It has the fields that the sources read of it: \<^verbatim>\<open>student.cpf\<close>
  (\<^verbatim>\<open>Class.fromJSON\<close>), \<^verbatim>\<open>student.name\<close>, and \<^verbatim>\<open>evaluations\<close> and
  \<^verbatim>\<open>selfEvaluations\<close> as arrays of goal and grade (the client).
\<close>

record student_json =
  json_name :: string
  json_cpf :: string
  json_email :: string

record enrollment_json =
  json_student :: student_json
  json_evaluations :: "(string \<times> string) list"
  json_selfEvaluations :: "(string \<times> string) list"

text \<open>
  Modelled from the spec: \<^verbatim>\<open>Student.toJSON\<close> is not among the sources. The CPF it
  writes is the identity of the student, the one \<^verbatim>\<open>getCPF()\<close> returns, so that the
  search of \<^verbatim>\<open>Class.fromJSON\<close> can find the student again.
\<close>

definition Student_toJSON :: "student \<Rightarrow> student_json" where
  "Student_toJSON s =
     \<lparr>json_name = student_name s, json_cpf = getCPF s, json_email = student_email s\<rparr>"

text \<open>
  Modelled from the spec: \<^verbatim>\<open>Enrollment.toJSON\<close> is not among the sources. It writes
  the student and both collections of grades.
\<close>

definition Enrollment_toJSON :: "enrollment \<Rightarrow> enrollment_json" where
  "Enrollment_toJSON e =
     \<lparr>json_student = Student_toJSON (getStudent e),
      json_evaluations = teacherEvaluations e,
      json_selfEvaluations = selfEvaluations e\<rparr>"

text \<open>
  Modelled from the spec: \<^verbatim>\<open>Enrollment.fromJSON(data, student)\<close> is not among the
  sources. It builds the enrollment of the student it is given, with the grades of the
  data.
\<close>

definition Enrollment_fromJSON :: "enrollment_json \<Rightarrow> student \<Rightarrow> enrollment" where
  "Enrollment_fromJSON data s =
     \<lparr>student = s,
      teacherEvaluations = json_evaluations data,
      selfEvaluations = json_selfEvaluations data\<rparr>"

subsection \<open>Arrays of enrollments\<close>

text \<open>
  A \<^verbatim>\<open>Class\<close> holds a reference to an array of enrollments, and the array is
  mutated in place (\<^verbatim>\<open>push\<close>, \<^verbatim>\<open>splice\<close>). The store maps a reference to the
  contents of its array; \<open>next_ref\<close> is the first reference not yet given out. The
  enrollments in an array are kept as values: what is modelled of sharing is the sharing
  of arrays.
\<close>

type_synonym ref = nat

record heap =
  arrays :: "ref \<Rightarrow> enrollment list"
  next_ref :: ref

definition alloc :: "heap \<Rightarrow> enrollment list \<Rightarrow> heap \<times> ref" where
  "alloc h xs =
     (h\<lparr>arrays := (arrays h)(next_ref h := xs), next_ref := Suc (next_ref h)\<rparr>, next_ref h)"

definition array_write :: "heap \<Rightarrow> ref \<Rightarrow> enrollment list \<Rightarrow> heap" where
  "array_write h r xs = h\<lparr>arrays := (arrays h)(r := xs)\<rparr>"

text \<open>\<^verbatim>\<open>findIndex\<close> gives \<open>-1\<close> when nothing matches: \<open>None\<close> here.\<close>

fun findIndex :: "('a \<Rightarrow> bool) \<Rightarrow> 'a list \<Rightarrow> nat option" where
  "findIndex P [] = None"
| "findIndex P (x # xs) = (if P x then Some 0 else map_option Suc (findIndex P xs))"

text \<open>\<^verbatim>\<open>xs.splice(index, 1)\<close>.\<close>

definition splice_one :: "nat \<Rightarrow> 'a list \<Rightarrow> 'a list" where
  "splice_one i xs = take i xs @ drop (Suc i) xs"

subsection \<open>Class (models/Class.ts)\<close>

record class_obj =
  topic :: string
  semester :: nat
  year :: nat
  enrollments :: ref

datatype error = AlreadyEnrolled | StudentNotFound string

text \<open>
  \<^verbatim>\<open>
  constructor(topic: string, semester: number, year: number, enrollments: Enrollment[] = []) {
    this.topic = topic; this.semester = semester; this.year = year;
    this.enrollments = enrollments;
  }
  \<close>
  The array given is kept by reference; without one a new empty array is made.
\<close>

definition Class_new :: "heap \<Rightarrow> string \<Rightarrow> nat \<Rightarrow> nat \<Rightarrow> ref option \<Rightarrow> heap \<times> class_obj" where
  "Class_new h t s y given =
     (case given of
        Some r \<Rightarrow> (h, \<lparr>topic = t, semester = s, year = y, enrollments = r\<rparr>)
      | None \<Rightarrow>
          (case alloc h [] of
             (h', r) \<Rightarrow> (h', \<lparr>topic = t, semester = s, year = y, enrollments = r\<rparr>)))"

text \<open>\<^verbatim>\<open>return [...this.enrollments];\<close>\<close>

definition getEnrollments :: "heap \<Rightarrow> class_obj \<Rightarrow> heap \<times> ref" where
  "getEnrollments h c = alloc h (arrays h (enrollments c))"

text \<open>\<^verbatim>\<open>return `${this.topic}-${this.year}-${this.semester}`;\<close>\<close>

definition getClassId :: "class_obj \<Rightarrow> string" where
  "getClassId c = topic c @ ''-'' @ digits (year c) @ ''-'' @ digits (semester c)"

text \<open>
  \<^verbatim>\<open>
  return this.enrollments.find(enrollment => enrollment.getStudent().getCPF() === studentCPF);
  \<close>
\<close>

definition findEnrollmentByStudentCPF :: "heap \<Rightarrow> class_obj \<Rightarrow> string \<Rightarrow> enrollment option" where
  "findEnrollmentByStudentCPF h c studentCPF =
     find (\<lambda>enrollment. getCPF (getStudent enrollment) = studentCPF) (arrays h (enrollments c))"

text \<open>
  \<^verbatim>\<open>
  const existingEnrollment = this.findEnrollmentByStudentCPF(student.getCPF());
  if (existingEnrollment) { throw new Error('Student is already enrolled in this class'); }
  const enrollment = new Enrollment(student);
  this.enrollments.push(enrollment);
  return enrollment;
  \<close>
\<close>

definition addEnrollment :: "heap \<Rightarrow> class_obj \<Rightarrow> student \<Rightarrow> heap \<times> (error + enrollment)" where
  "addEnrollment h c s =
     (case findEnrollmentByStudentCPF h c (getCPF s) of
        Some existingEnrollment \<Rightarrow> (h, Inl AlreadyEnrolled)
      | None \<Rightarrow>
          (let enrollment = Enrollment_new s
           in (array_write h (enrollments c) (arrays h (enrollments c) @ [enrollment]),
               Inr enrollment)))"

text \<open>
  \<^verbatim>\<open>
  const index = this.enrollments.findIndex(enrollment =>
    enrollment.getStudent().getCPF() === studentCPF);
  if (index === -1) { return false; }
  this.enrollments.splice(index, 1);
  return true;
  \<close>
\<close>

definition removeEnrollment :: "heap \<Rightarrow> class_obj \<Rightarrow> string \<Rightarrow> heap \<times> bool" where
  "removeEnrollment h c studentCPF =
     (case findIndex (\<lambda>enrollment. getCPF (getStudent enrollment) = studentCPF)
             (arrays h (enrollments c)) of
        None \<Rightarrow> (h, False)
      | Some index \<Rightarrow>
          (array_write h (enrollments c) (splice_one index (arrays h (enrollments c))), True))"

definition getEnrolledStudents :: "heap \<Rightarrow> class_obj \<Rightarrow> student list" where
  "getEnrolledStudents h c = map getStudent (arrays h (enrollments c))"

text \<open>
  \<^verbatim>\<open>
  toJSON() {
    return { id: this.getClassId(), topic: this.topic, semester: this.semester,
             year: this.year,
             enrollments: this.enrollments.map(enrollment => enrollment.toJSON()) };
  }
  \<close>
  \<^verbatim>\<open>fromJSON\<close> takes data whose \<^verbatim>\<open>enrollments\<close> may be missing, so the field is
  optional; \<^verbatim>\<open>toJSON\<close> always writes it.
\<close>

record class_json =
  json_id :: string
  json_topic :: string
  json_semester :: nat
  json_year :: nat
  json_enrollments :: "enrollment_json list option"

definition toJSON :: "heap \<Rightarrow> class_obj \<Rightarrow> class_json" where
  "toJSON h c =
     \<lparr>json_id = getClassId c, json_topic = topic c, json_semester = semester c,
      json_year = year c,
      json_enrollments = Some (map Enrollment_toJSON (arrays h (enrollments c)))\<rparr>"

text \<open>
  \<^verbatim>\<open>
  static fromJSON(data, allStudents: Student[]): Class {
    const enrollments = data.enrollments
      ? data.enrollments.map((enrollmentData: any) => {
          const student = allStudents.find(s => s.getCPF() === enrollmentData.student.cpf);
          if (!student) {
            throw new Error(`Student with CPF ${enrollmentData.student.cpf} not found`);
          }
          return Enrollment.fromJSON(enrollmentData, student);
        })
      : [];
    return new Class(data.topic, data.semester, data.year, enrollments);
  }
  \<close>
  The \<^verbatim>\<open>map\<close> goes from left to right and stops at the first student that is not
  found.
\<close>

fun enrollments_fromJSON :: "student list \<Rightarrow> enrollment_json list \<Rightarrow> error + enrollment list" where
  "enrollments_fromJSON allStudents [] = Inr []"
| "enrollments_fromJSON allStudents (enrollmentData # rest) =
     (case find (\<lambda>s. getCPF s = json_cpf (json_student enrollmentData)) allStudents of
        None \<Rightarrow> Inl (StudentNotFound (json_cpf (json_student enrollmentData)))
      | Some s \<Rightarrow>
          (case enrollments_fromJSON allStudents rest of
             Inl e \<Rightarrow> Inl e
           | Inr es \<Rightarrow> Inr (Enrollment_fromJSON enrollmentData s # es)))"

definition fromJSON :: "heap \<Rightarrow> class_json \<Rightarrow> student list \<Rightarrow> heap \<times> (error + class_obj)" where
  "fromJSON h data allStudents =
     (case (case json_enrollments data of
              Some ds \<Rightarrow> enrollments_fromJSON allStudents ds
            | None \<Rightarrow> Inr []) of
        Inl e \<Rightarrow> (h, Inl e)
      | Inr es \<Rightarrow>
          (case alloc h es of
             (h1, r) \<Rightarrow>
               (case Class_new h1 (json_topic data) (json_semester data) (json_year data)
                       (Some r) of
                  (h2, c) \<Rightarrow> (h2, Inr c))))"

text \<open>The enrollments of the data, none when the field is missing.\<close>

definition data_enrollments :: "class_json \<Rightarrow> enrollment_json list" where
  "data_enrollments data = (case json_enrollments data of None \<Rightarrow> [] | Some ds \<Rightarrow> ds)"

text \<open>The invariant of the specification: one enrollment for one CPF in a class.\<close>

definition enrollment_cpfs :: "heap \<Rightarrow> class_obj \<Rightarrow> string list" where
  "enrollment_cpfs h c = map (\<lambda>e. getCPF (getStudent e)) (arrays h (enrollments c))"

definition one_enrollment_per_cpf :: "heap \<Rightarrow> class_obj \<Rightarrow> bool" where
  "one_enrollment_per_cpf h c = distinct (enrollment_cpfs h c)"

text \<open>Two students, an empty store, and a class of the store with one student enrolled.\<close>

definition alice :: student where
  "alice = \<lparr>student_name = ''Alice'', student_cpf = ''12345678901'',
            student_email = ''alice@example.com''\<rparr>"

definition bob :: student where
  "bob = \<lparr>student_name = ''Bob'', student_cpf = ''98765432100'',
          student_email = ''bob@example.com''\<rparr>"

definition empty_heap :: heap where
  "empty_heap = \<lparr>arrays = (\<lambda>r. []), next_ref = 0\<rparr>"

definition ess :: class_obj where
  "ess = \<lparr>topic = ''ESS'', semester = 1, year = 2025, enrollments = 0\<rparr>"

definition ess_heap :: heap where
  "ess_heap = fst (alloc empty_heap [Enrollment_new alice])"

text \<open>A second class, with nobody enrolled, in a store that holds both.\<close>

definition plc :: class_obj where
  "plc = \<lparr>topic = ''PLC'', semester = 2, year = 2025, enrollments = 1\<rparr>"

definition two_heap :: heap where
  "two_heap = fst (alloc ess_heap [])"

text \<open>
  Two classes that the constructor builds on one array, empty at first:
  \<^verbatim>\<open>const shared: Enrollment[] = []; new Class('ESS', 1, 2025, shared);
  new Class('PLC', 2, 2025, shared);\<close>
\<close>

definition shared_heap :: heap where
  "shared_heap = fst (alloc empty_heap [])"

definition shared_array :: ref where
  "shared_array = snd (alloc empty_heap [])"

definition ess_shared :: class_obj where
  "ess_shared = snd (Class_new shared_heap ''ESS'' 1 2025 (Some shared_array))"

definition plc_shared :: class_obj where
  "plc_shared = snd (Class_new shared_heap ''PLC'' 2 2025 (Some shared_array))"

text \<open>
  An array that holds two enrollments of one student, as a caller of the constructor may
  pass it, and JSON data that lists one student twice.
\<close>

definition twice_heap :: heap where
  "twice_heap = fst (alloc empty_heap [Enrollment_new alice, Enrollment_new alice])"

definition twice_json :: class_json where
  "twice_json =
     \<lparr>json_id = ''ESS-2025-1'', json_topic = ''ESS'', json_semester = 1, json_year = 2025,
      json_enrollments =
        Some [Enrollment_toJSON (Enrollment_new alice), Enrollment_toJSON (Enrollment_new alice)]\<rparr>"

subsection \<open>The routes of the server and the CPF\<close>

text \<open>
  \<^verbatim>\<open>const cleanCPF = (cpf: string): string => { return cpf.replace(/[.-]/g, ''); };\<close>
\<close>

definition cleanCPF :: "string \<Rightarrow> string" where
  "cleanCPF cpf = filter (\<lambda>ch. ch \<noteq> CHR ''.'' \<and> ch \<noteq> CHR ''-'') cpf"

text \<open>
  The routes \<^verbatim>\<open>GET /api/students/:cpf\<close> and \<^verbatim>\<open>DELETE /api/students/:cpf\<close>
  clean the CPF of the path and hand it to the student store. The store
  (models/StudentSet.ts) is not among the sources: its lookup and its removal are
  parameters of the routes. A route answers with a status and, for a student found, the
  student.
\<close>

datatype 'a response = Status_200 'a | Status_204 | Status_404

definition get_student :: "(string \<Rightarrow> student option) \<Rightarrow> string \<Rightarrow> student response" where
  "get_student findStudentByCPF cpf =
     (let cleanedCPF = cleanCPF cpf
      in case findStudentByCPF cleanedCPF of
           None \<Rightarrow> Status_404
         | Some s \<Rightarrow> Status_200 s)"

definition delete_student :: "(string \<Rightarrow> bool) \<Rightarrow> string \<Rightarrow> student response" where
  "delete_student removeStudent cpf =
     (let cleanedCPF = cleanCPF cpf
      in if removeStudent cleanedCPF then Status_204 else Status_404)"

subsection \<open>recordEvaluation\<close>

text \<open>
  Modelled from the spec: no function that records a grade is among the sources (the one
  route that did is commented out in the server, and \<^verbatim>\<open>Enrollment\<close> is missing). The
  two kinds of grade are the teacher's and the student's own. The failures of
  \<^verbatim>\<open>recordEvaluation\<close> are \<^verbatim>\<open>EnrollmentNotFound\<close> and \<^verbatim>\<open>InvalidGrade\<close>, and in
  the specification's classes of errors an invalid grade is a \<^verbatim>\<open>ValidationError\<close>,
  a missing enrollment a \<^verbatim>\<open>NotFoundError\<close>.
\<close>

datatype evaluation_kind = Teacher | Self

datatype failure = EnrollmentNotFound | InvalidGrade

datatype failure_class = ValidationError | NotFoundError | ConflictError

fun failure_class_of :: "failure \<Rightarrow> failure_class" where
  "failure_class_of EnrollmentNotFound = NotFoundError"
| "failure_class_of InvalidGrade = ValidationError"

text \<open>
  Modelled from the spec: removing any record of a goal from a collection of grades.
\<close>

fun remove_record :: "string \<Rightarrow> (string \<times> string) list \<Rightarrow> (string \<times> string) list" where
  "remove_record goal [] = []"
| "remove_record goal ((g, v) # rest) =
     (if g = goal then remove_record goal rest else (g, v) # remove_record goal rest)"

text \<open>
  Modelled from the spec: inserting the grade of a goal into a collection, or overwriting
  the grade the goal has there.
\<close>

fun upsert_record ::
  "string \<Rightarrow> string \<Rightarrow> (string \<times> string) list \<Rightarrow> (string \<times> string) list" where
  "upsert_record goal grade [] = [(goal, grade)]"
| "upsert_record goal grade ((g, v) # rest) =
     (if g = goal then (goal, grade) # rest else (g, v) # upsert_record goal grade rest)"

text \<open>
  Modelled from the spec: the collection of one kind of an enrollment, read and written.
\<close>

definition evaluations_of :: "evaluation_kind \<Rightarrow> enrollment \<Rightarrow> (string \<times> string) list" where
  "evaluations_of k e = (case k of Teacher \<Rightarrow> teacherEvaluations e | Self \<Rightarrow> selfEvaluations e)"

definition set_evaluations ::
  "evaluation_kind \<Rightarrow> (string \<times> string) list \<Rightarrow> enrollment \<Rightarrow> enrollment" where
  "set_evaluations k evs e =
     (case k of
        Teacher \<Rightarrow> e\<lparr>teacherEvaluations := evs\<rparr>
      | Self \<Rightarrow> e\<lparr>selfEvaluations := evs\<rparr>)"

text \<open>
  Modelled from the spec: \<^verbatim>\<open>recordEvaluation(class, studentId, goal, grade, kind)\<close>, in
  the specification's words, looks up the enrollment by \<^verbatim>\<open>studentId\<close> and fails with
  \<^verbatim>\<open>EnrollmentNotFound\<close> if it is absent; if the grade is the empty one it removes any
  record for that goal and kind; otherwise it checks that the grade is one of the three
  levels, fails with \<^verbatim>\<open>InvalidGrade\<close> if it is not, and inserts or overwrites the
  record.
\<close>

definition recordEvaluation ::
  "heap \<Rightarrow> class_obj \<Rightarrow> string \<Rightarrow> string \<Rightarrow> string \<Rightarrow> evaluation_kind \<Rightarrow> heap \<times> (failure + unit)"
where
  "recordEvaluation h c studentId goal grade k =
     (let es = arrays h (enrollments c)
      in case findIndex (\<lambda>e. getCPF (getStudent e) = studentId) es of
           None \<Rightarrow> (h, Inl EnrollmentNotFound)
         | Some i \<Rightarrow>
             if grade = [] then
               (array_write h (enrollments c)
                  (es[i := set_evaluations k (remove_record goal (evaluations_of k (es ! i)))
                             (es ! i)]),
                Inr ())
             else if grade \<notin> set [''MANA'', ''MPA'', ''MA''] then (h, Inl InvalidGrade)
             else
               (array_write h (enrollments c)
                  (es[i := set_evaluations k
                             (upsert_record goal grade (evaluations_of k (es ! i))) (es ! i)]),
                Inr ()))"

section \<open>Properties of compareGoal\<close>

lemma rank_of_None [simp]: "rank_of None = None"
  by (simp add: rank_of_def)

lemma rank_of_empty [simp]: "rank_of (Some []) = None"
  by (simp add: rank_of_def)


lemma object_prototype_is_object:
  "object_prototype k = Some v \<Longrightarrow> \<exists>s. v = JObj s"
  by (auto simp: object_prototype_def native_function_def split: if_splits)

lemma rank_of_grade:
  "spec_rank k = Some n \<Longrightarrow> rank_of (Some k) = Some (JNum n)"
  by (auto simp: spec_rank_def rank_of_def hierarchy_def split: if_splits)

lemma rank_of_other:
  "spec_rank k = None \<Longrightarrow> object_prototype k = None \<Longrightarrow> rank_of (Some k) = None"
  by (auto simp: spec_rank_def rank_of_def hierarchy_def split: if_splits)

lemma rank_of_inherited:
  "spec_rank k = None \<Longrightarrow> rank_of (Some k) = Some v \<Longrightarrow> \<exists>s. v = JObj s"
  by (auto simp: spec_rank_def rank_of_def hierarchy_def
      split: if_splits option.splits dest: object_prototype_is_object)

text \<open>
  On every pair of strings of which at most one names a property of
  \<^verbatim>\<open>Object.prototype\<close>, the code agrees with the specification: true exactly when
  both are levels and the teacher's rank is below the student's.
\<close>

lemma compareGoal_agrees:
  assumes "object_prototype t = None \<or> object_prototype s = None"
  shows "compareGoal (Some t) (Some s) = spec_compareGoal t s"
proof (cases "spec_rank t")
  case None
  note t = this
  show ?thesis
  proof (cases "rank_of (Some t)")
    case None
    with t show ?thesis by (simp add: compareGoal_def spec_compareGoal_def)
  next
    case (Some v)
    with t obtain x where v: "v = JObj x" by (blast dest: rank_of_inherited)
    from t Some have tp: "object_prototype t \<noteq> None" by (auto dest: rank_of_other)
    with assms have sp: "object_prototype s = None" by simp
    show ?thesis
    proof (cases "spec_rank s")
      case None
      with sp have "rank_of (Some s) = None" by (simp add: rank_of_other)
      with t show ?thesis by (simp add: compareGoal_def spec_compareGoal_def Some)
    next
      case (Some n)
      then have "rank_of (Some s) = Some (JNum n)" by (rule rank_of_grade)
      with t v \<open>rank_of (Some t) = Some v\<close> show ?thesis
        by (simp add: compareGoal_def spec_compareGoal_def)
    qed
  qed
next
  case (Some a)
  note t = this
  then have rt: "rank_of (Some t) = Some (JNum a)" by (rule rank_of_grade)
  show ?thesis
  proof (cases "spec_rank s")
    case None
    note s = this
    show ?thesis
    proof (cases "rank_of (Some s)")
      case None
      with t s rt show ?thesis by (simp add: compareGoal_def spec_compareGoal_def)
    next
      case (Some v)
      with s obtain x where "v = JObj x" by (blast dest: rank_of_inherited)
      with t s rt Some show ?thesis by (simp add: compareGoal_def spec_compareGoal_def)
    qed
  next
    case (Some b)
    then have "rank_of (Some s) = Some (JNum b)" by (rule rank_of_grade)
    with t Some rt show ?thesis by (simp add: compareGoal_def spec_compareGoal_def)
  qed
qed

lemma compareGoal_MA_MA: "compareGoal (Some ''MA'') (Some ''MA'') = False"
  by (simp add: compareGoal_def rank_of_def hierarchy_def)

text \<open>
  Claim C1. \<^verbatim>\<open>compareGoal(t, s)\<close> is to be true exactly when both grades are among
  MANA, MPA, MA and the teacher's rank is below the student's, and false for any
  argument that is empty or not one of the three levels. The code comments its guard
  with "no discrepancy if either grade is empty or invalid", but the guard lets the
  inherited properties of the table through: \<^verbatim>\<open>hierarchy["constructor"]\<close> and
  \<^verbatim>\<open>hierarchy["toString"]\<close> are functions, both truthy, and \<^verbatim>\<open><\<close> compares
  their strings \<^verbatim>\<open>function Object() ...\<close> and \<^verbatim>\<open>function toString() ...\<close>.
  So the code answers true on two strings neither of which is a level, where the
  specification's function answers false.
\<close>

theorem compareGoal_inherited_keys:
  "compareGoal (Some ''constructor'') (Some ''toString'') = True
   \<and> spec_compareGoal ''constructor'' ''toString'' = False"
  by (simp add: compareGoal_def rank_of_def hierarchy_def object_prototype_def
      prototype_methods_def native_function_def spec_compareGoal_def spec_rank_def)

section \<open>Double precision: the error of one rounding\<close>

lemma pow2_powi: "pow2 k = 2 powi k"
  by (simp add: pow2_def power_int_def field_simps)

lemma pow2_pos [simp]: "0 < pow2 k"
  by (simp add: pow2_powi)


lemma pow2_nonzero [simp]: "pow2 k \<noteq> 0"
  by (simp add: pow2_powi)

lemma pow2_abs [simp]: "\<bar>pow2 k\<bar> = pow2 k"
  using pow2_pos [of k] by (simp only: abs_of_pos)


lemma pow2_0 [simp]: "pow2 0 = 1"
  by (simp add: pow2_def)







lemma fl_0 [simp]: "fl 0 = 0"
  by (simp add: fl_def)









section \<open>The percentage: double precision against the exact quotient\<close>









section \<open>Properties of getStudentDiscrepancyInfo\<close>

















lemma example_own: "list_all (\<lambda>g. object_prototype g = None) example_goals"
  by (simp add: example_goals_def object_prototype_def prototype_methods_def)














section \<open>Properties of the scheduler's target time\<close>





































section \<open>Properties of Class\<close>

subsection \<open>Arrays and searches\<close>

lemma findIndex_None_iff: "findIndex P xs = None \<longleftrightarrow> (\<forall>x \<in> set xs. \<not> P x)"
  by (induction xs) auto

lemma findIndex_Some_split:
  "findIndex P xs = Some i \<Longrightarrow>
     \<exists>ys x zs. xs = ys @ x # zs \<and> length ys = i \<and> P x \<and> (\<forall>y \<in> set ys. \<not> P y)"
proof (induction xs arbitrary: i)
  case Nil
  then show ?case by simp
next
  case (Cons a xs)
  show ?case
  proof (cases "P a")
    case True
    with Cons.prems have "i = 0" by simp
    with True show ?thesis by (intro exI [of _ "[]"]) simp
  next
    case False
    with Cons.prems obtain j where j: "findIndex P xs = Some j" "i = Suc j" by auto
    from Cons.IH [OF j(1)] obtain ys x zs
      where "xs = ys @ x # zs" "length ys = j" "P x" "\<forall>y \<in> set ys. \<not> P y" by blast
    with False j(2) show ?thesis by (intro exI [of _ "a # ys"]) simp
  qed
qed

lemma splice_one_append: "splice_one (length ys) (ys @ x # zs) = ys @ zs"
  by (simp add: splice_one_def)

lemma alloc_simps [simp]:
  "snd (alloc h xs) = next_ref h"
  "next_ref (fst (alloc h xs)) = Suc (next_ref h)"
  "arrays (fst (alloc h xs)) = (arrays h)(next_ref h := xs)"
  by (simp_all add: alloc_def)

lemma array_write_simps [simp]:
  "arrays (array_write h r xs) = (arrays h)(r := xs)"
  "next_ref (array_write h r xs) = next_ref h"
  by (simp_all add: array_write_def)

lemma enrollment_cpfs_write [simp]:
  "enrollment_cpfs (array_write h (enrollments c) xs) c = map (\<lambda>e. getCPF (getStudent e)) xs"
  by (simp add: enrollment_cpfs_def)

lemma find_by_cpf_None_iff:
  "findEnrollmentByStudentCPF h c k = None \<longleftrightarrow> k \<notin> set (enrollment_cpfs h c)"
  by (auto simp: findEnrollmentByStudentCPF_def enrollment_cpfs_def find_None_iff)

lemma findIndex_by_cpf_None_iff:
  "findIndex (\<lambda>e. getCPF (getStudent e) = k) (arrays h (enrollments c)) = None
     \<longleftrightarrow> k \<notin> set (enrollment_cpfs h c)"
  by (auto simp: enrollment_cpfs_def findIndex_None_iff)

subsection \<open>addEnrollment\<close>

lemma addEnrollment_enrolled:
  assumes "getCPF s \<in> set (enrollment_cpfs h c)"
  shows "addEnrollment h c s = (h, Inl AlreadyEnrolled)"
proof -
  from assms have "findEnrollmentByStudentCPF h c (getCPF s) \<noteq> None"
    by (simp add: find_by_cpf_None_iff)
  then show ?thesis by (auto simp: addEnrollment_def)
qed

lemma addEnrollment_new:
  assumes "getCPF s \<notin> set (enrollment_cpfs h c)"
  shows "addEnrollment h c s =
           (array_write h (enrollments c) (arrays h (enrollments c) @ [Enrollment_new s]),
            Inr (Enrollment_new s))"
proof -
  from assms have "findEnrollmentByStudentCPF h c (getCPF s) = None"
    by (simp add: find_by_cpf_None_iff)
  then show ?thesis by (simp add: addEnrollment_def Let_def)
qed

lemma addEnrollment_invariant:
  assumes "one_enrollment_per_cpf h c"
  shows "one_enrollment_per_cpf (fst (addEnrollment h c s)) c"
proof (cases "getCPF s \<in> set (enrollment_cpfs h c)")
  case True
  with assms show ?thesis by (simp add: addEnrollment_enrolled)
next
  case False
  have "getStudent (Enrollment_new s) = s" by (simp add: getStudent_def Enrollment_new_def)
  with False assms show ?thesis
    by (simp add: addEnrollment_new one_enrollment_per_cpf_def)
      (simp add: enrollment_cpfs_def)
qed

subsection \<open>removeEnrollment\<close>

lemma removeEnrollment_absent:
  assumes "k \<notin> set (enrollment_cpfs h c)"
  shows "removeEnrollment h c k = (h, False)"
proof -
  from assms
  have "findIndex (\<lambda>e. getCPF (getStudent e) = k) (arrays h (enrollments c)) = None"
    by (simp add: findIndex_by_cpf_None_iff)
  then show ?thesis by (simp add: removeEnrollment_def)
qed

lemma removeEnrollment_present:
  assumes "k \<in> set (enrollment_cpfs h c)"
  shows "\<exists>ys e zs. arrays h (enrollments c) = ys @ e # zs
           \<and> getCPF (getStudent e) = k
           \<and> k \<notin> set (map (\<lambda>e. getCPF (getStudent e)) ys)
           \<and> removeEnrollment h c k = (array_write h (enrollments c) (ys @ zs), True)"
proof -
  from assms obtain i
    where i: "findIndex (\<lambda>e. getCPF (getStudent e) = k) (arrays h (enrollments c)) = Some i"
    using findIndex_by_cpf_None_iff [of k h c] by auto
  from findIndex_Some_split [OF i] obtain ys e zs
    where split: "arrays h (enrollments c) = ys @ e # zs" "length ys = i"
      "getCPF (getStudent e) = k" "\<forall>y \<in> set ys. getCPF (getStudent y) \<noteq> k"
    by blast
  have "removeEnrollment h c k = (array_write h (enrollments c) (ys @ zs), True)"
    using i split(1,2) splice_one_append [of ys e zs]
    by (simp add: removeEnrollment_def)
  with split show ?thesis by (intro exI [of _ ys] exI [of _ e] exI [of _ zs]) auto
qed

lemma removeEnrollment_invariant:
  assumes "one_enrollment_per_cpf h c"
  shows "one_enrollment_per_cpf (fst (removeEnrollment h c k)) c"
proof (cases "k \<in> set (enrollment_cpfs h c)")
  case False
  with assms show ?thesis by (simp add: removeEnrollment_absent)
next
  case True
  from removeEnrollment_present [OF True] obtain ys e zs
    where "arrays h (enrollments c) = ys @ e # zs"
      "removeEnrollment h c k = (array_write h (enrollments c) (ys @ zs), True)"
    by blast
  with assms show ?thesis
    by (simp add: one_enrollment_per_cpf_def) (auto simp: enrollment_cpfs_def)
qed

lemma removeEnrollment_twice:
  assumes inv: "one_enrollment_per_cpf h c" and k: "k \<in> set (enrollment_cpfs h c)"
  shows "removeEnrollment (fst (removeEnrollment h c k)) c k
           = (fst (removeEnrollment h c k), False)"
proof -
  from removeEnrollment_present [OF k] obtain ys e zs
    where split: "arrays h (enrollments c) = ys @ e # zs" "getCPF (getStudent e) = k"
      and rm: "removeEnrollment h c k = (array_write h (enrollments c) (ys @ zs), True)"
    by blast
  from inv split have "k \<notin> set (map (\<lambda>e. getCPF (getStudent e)) (ys @ zs))"
    by (auto simp: one_enrollment_per_cpf_def enrollment_cpfs_def)
  then have "k \<notin> set (enrollment_cpfs (array_write h (enrollments c) (ys @ zs)) c)"
    by simp
  then show ?thesis by (simp add: rm removeEnrollment_absent)
qed

subsection \<open>The constructor and fromJSON\<close>

lemma Class_new_default:
  "Class_new h t s y None
     = (fst (alloc h []), \<lparr>topic = t, semester = s, year = y, enrollments = next_ref h\<rparr>)"
  by (simp add: Class_new_def alloc_def)

lemma Class_new_given:
  "Class_new h t s y (Some r) = (h, \<lparr>topic = t, semester = s, year = y, enrollments = r\<rparr>)"
  by (simp add: Class_new_def)

lemma enrollments_fromJSON_cpfs:
  "enrollments_fromJSON allStudents ds = Inr es \<Longrightarrow>
     map (\<lambda>e. getCPF (getStudent e)) es = map (\<lambda>d. json_cpf (json_student d)) ds"
proof (induction ds arbitrary: es)
  case Nil
  then show ?case by simp
next
  case (Cons d ds)
  from Cons.prems obtain s es'
    where s: "find (\<lambda>s. getCPF s = json_cpf (json_student d)) allStudents = Some s"
      and es': "enrollments_fromJSON allStudents ds = Inr es'"
      and es: "es = Enrollment_fromJSON d s # es'"
    by (auto split: option.splits sum.splits)
  from s have "getCPF s = json_cpf (json_student d)" by (auto simp: find_Some_iff)
  with Cons.IH [OF es'] es show ?case
    by (simp add: getStudent_def Enrollment_fromJSON_def)
qed

lemma fromJSON_Inr:
  assumes "fromJSON h data allStudents = (h', Inr c)"
  shows "\<exists>es. enrollments_fromJSON allStudents (data_enrollments data) = Inr es
           \<and> h' = fst (alloc h es)
           \<and> c = \<lparr>topic = json_topic data, semester = json_semester data,
                  year = json_year data, enrollments = next_ref h\<rparr>"
  using assms
  by (auto simp: fromJSON_def data_enrollments_def Class_new_given alloc_def
      split: option.splits sum.splits)

lemma fromJSON_cpfs:
  assumes "fromJSON h data allStudents = (h', Inr c)"
  shows "enrollment_cpfs h' c = map (\<lambda>d. json_cpf (json_student d)) (data_enrollments data)"
proof -
  from fromJSON_Inr [OF assms] obtain es
    where es: "enrollments_fromJSON allStudents (data_enrollments data) = Inr es"
      and h': "h' = fst (alloc h es)"
      and c: "enrollments c = next_ref h"
    by auto
  have "enrollment_cpfs h' c = map (\<lambda>e. getCPF (getStudent e)) es"
    by (simp add: enrollment_cpfs_def h' c)
  with enrollments_fromJSON_cpfs [OF es] show ?thesis by simp
qed

subsection \<open>The claims on Class\<close>

lemma ess_heap_simps:
  "arrays ess_heap 0 = [Enrollment_new alice]"
  "arrays ess_heap (Suc n) = []"
  "next_ref ess_heap = 1"
  "enrollments ess = 0"
  by (simp_all add: ess_heap_def empty_heap_def ess_def)

lemma twice_heap_simps:
  "arrays twice_heap 0 = [Enrollment_new alice, Enrollment_new alice]"
  "next_ref twice_heap = 1"
  by (simp_all add: twice_heap_def empty_heap_def)

lemma two_heap_simps:
  "arrays two_heap 0 = [Enrollment_new alice]"
  "arrays two_heap (Suc 0) = []"
  "next_ref two_heap = 2"
  "enrollments plc = Suc 0"
  by (simp_all add: two_heap_def ess_heap_simps plc_def)

lemma two_cpfs:
  "enrollment_cpfs two_heap ess = [''12345678901'']"
  "enrollment_cpfs two_heap plc = []"
  by (simp_all add: enrollment_cpfs_def two_heap_simps ess_heap_simps getStudent_def
      Enrollment_new_def getCPF_def alice_def)

lemma ess_cpfs: "enrollment_cpfs ess_heap ess = [''12345678901'']"
  by (simp add: enrollment_cpfs_def ess_heap_simps getStudent_def Enrollment_new_def
      getCPF_def alice_def)

text \<open>
  Claim C3. Of the ways in which a \<^verbatim>\<open>Class\<close> is made or changed, the constructor
  without an array makes a class with one enrollment for one CPF (it has none), and
  \<^verbatim>\<open>addEnrollment\<close> and \<^verbatim>\<open>removeEnrollment\<close> keep a class so. The constructor
  given an array, and \<^verbatim>\<open>fromJSON\<close>, check nothing: the class they make has one
  enrollment for one CPF exactly when the array, or the enrollments of the JSON data,
  have.
\<close>

theorem class_invariant:
  "one_enrollment_per_cpf (fst (Class_new h t s y None)) (snd (Class_new h t s y None))
   \<and> (one_enrollment_per_cpf h c \<longrightarrow> one_enrollment_per_cpf (fst (addEnrollment h c st)) c)
   \<and> (one_enrollment_per_cpf h c \<longrightarrow> one_enrollment_per_cpf (fst (removeEnrollment h c k)) c)
   \<and> (one_enrollment_per_cpf (fst (Class_new h t s y (Some r))) (snd (Class_new h t s y (Some r)))
        \<longleftrightarrow> distinct (map (\<lambda>e. getCPF (getStudent e)) (arrays h r)))
   \<and> (fromJSON hj data allStudents = (h', Inr c') \<longrightarrow>
        (one_enrollment_per_cpf h' c'
          \<longleftrightarrow> distinct (map (\<lambda>d. json_cpf (json_student d)) (data_enrollments data))))"
proof -
  have "one_enrollment_per_cpf (fst (Class_new h t s y None)) (snd (Class_new h t s y None))"
    by (simp add: Class_new_default one_enrollment_per_cpf_def enrollment_cpfs_def)
  moreover have "one_enrollment_per_cpf (fst (Class_new h t s y (Some r)))
        (snd (Class_new h t s y (Some r)))
      \<longleftrightarrow> distinct (map (\<lambda>e. getCPF (getStudent e)) (arrays h r))"
    by (simp add: Class_new_given one_enrollment_per_cpf_def enrollment_cpfs_def)
  moreover have "one_enrollment_per_cpf h' c'
      \<longleftrightarrow> distinct (map (\<lambda>d. json_cpf (json_student d)) (data_enrollments data))"
    if "fromJSON hj data allStudents = (h', Inr c')"
    using fromJSON_cpfs [OF that] by (simp add: one_enrollment_per_cpf_def)
  ultimately show ?thesis
    using addEnrollment_invariant [of h c st] removeEnrollment_invariant [of h c k]
    by blast
qed

theorem class_invariant_witness:
  "one_enrollment_per_cpf ess_heap ess
   \<and> one_enrollment_per_cpf (fst (addEnrollment ess_heap ess bob)) ess
   \<and> one_enrollment_per_cpf (fst (removeEnrollment ess_heap ess ''12345678901'')) ess
   \<and> fromJSON empty_heap (toJSON ess_heap ess) [alice, bob] = (ess_heap, Inr ess)
   \<and> distinct (map (\<lambda>d. json_cpf (json_student d)) (data_enrollments (toJSON ess_heap ess)))"
proof -
  have inv: "one_enrollment_per_cpf ess_heap ess"
    by (simp add: one_enrollment_per_cpf_def ess_cpfs)
  have rt: "fromJSON empty_heap (toJSON ess_heap ess) [alice, bob] = (ess_heap, Inr ess)"
    by (simp add: fromJSON_def toJSON_def ess_heap_def ess_def empty_heap_def alloc_def
        Class_new_def Enrollment_toJSON_def Enrollment_fromJSON_def Student_toJSON_def
        Enrollment_new_def getStudent_def getCPF_def alice_def bob_def)
  from class_invariant [of ess_heap "''ESS''" 1 2025 ess bob "''12345678901''" 0
      empty_heap "toJSON ess_heap ess" "[alice, bob]" ess_heap ess] inv rt
  show ?thesis by blast
qed

text \<open>
  As the claim is worded, with the constructor and \<^verbatim>\<open>fromJSON\<close> among the operations
  that establish the invariant, it fails: a class constructed on an array with two
  enrollments of one student has both, and so has a class read from JSON data that
  lists the student twice.
\<close>

theorem class_invariant_not_established:
  "\<not> one_enrollment_per_cpf (fst (Class_new twice_heap ''ESS'' 1 2025 (Some 0)))
        (snd (Class_new twice_heap ''ESS'' 1 2025 (Some 0)))
   \<and> fromJSON empty_heap twice_json [alice] = (twice_heap, Inr ess)
   \<and> \<not> one_enrollment_per_cpf twice_heap ess"
proof -
  have a: "\<not> one_enrollment_per_cpf twice_heap ess"
    by (simp add: one_enrollment_per_cpf_def enrollment_cpfs_def twice_heap_simps ess_def)
  have b: "Class_new twice_heap ''ESS'' 1 2025 (Some 0) = (twice_heap, ess)"
    by (simp add: Class_new_def ess_def)
  have c: "fromJSON empty_heap twice_json [alice] = (twice_heap, Inr ess)"
    by (simp add: fromJSON_def twice_json_def twice_heap_def ess_def empty_heap_def alloc_def
        Class_new_def Enrollment_toJSON_def Enrollment_fromJSON_def Student_toJSON_def
        Enrollment_new_def getStudent_def getCPF_def alice_def)
  from a b c show ?thesis by simp
qed

text \<open>
  Claim C4. \<^verbatim>\<open>addEnrollment\<close> fails, with the error that the student is already
  enrolled, exactly when the CPF of the student has an enrollment in the class, and then
  it changes nothing. Otherwise it makes an enrollment of the student with no grades of
  either kind and puts it at the end of the array, behind the enrollments there were, in
  their order. Enrolling one student in two classes that hold different arrays succeeds
  in both, and each class gains the enrollment; two classes that the constructor makes
  with no array given hold different arrays.
\<close>

theorem addEnrollment_spec:
  "(isl (snd (addEnrollment h c s)) \<longleftrightarrow> getCPF s \<in> set (enrollment_cpfs h c))
   \<and> (getCPF s \<in> set (enrollment_cpfs h c) \<longrightarrow>
        addEnrollment h c s = (h, Inl AlreadyEnrolled))
   \<and> (getCPF s \<notin> set (enrollment_cpfs h c) \<longrightarrow>
        addEnrollment h c s =
          (array_write h (enrollments c) (arrays h (enrollments c) @ [Enrollment_new s]),
           Inr (Enrollment_new s)))
   \<and> getStudent (Enrollment_new s) = s
   \<and> teacherEvaluations (Enrollment_new s) = []
   \<and> selfEvaluations (Enrollment_new s) = []
   \<and> (enrollments c1 \<noteq> enrollments c2
        \<and> getCPF s \<notin> set (enrollment_cpfs h c1) \<and> getCPF s \<notin> set (enrollment_cpfs h c2) \<longrightarrow>
        snd (addEnrollment h c1 s) = Inr (Enrollment_new s)
        \<and> snd (addEnrollment (fst (addEnrollment h c1 s)) c2 s) = Inr (Enrollment_new s)
        \<and> arrays (fst (addEnrollment (fst (addEnrollment h c1 s)) c2 s)) (enrollments c1)
            = arrays h (enrollments c1) @ [Enrollment_new s]
        \<and> arrays (fst (addEnrollment (fst (addEnrollment h c1 s)) c2 s)) (enrollments c2)
            = arrays h (enrollments c2) @ [Enrollment_new s])
   \<and> enrollments (snd (Class_new h t1 s1 y1 None))
       \<noteq> enrollments (snd (Class_new (fst (Class_new h t1 s1 y1 None)) t2 s2 y2 None))"
proof -
  have iff: "isl (snd (addEnrollment h c s)) \<longleftrightarrow> getCPF s \<in> set (enrollment_cpfs h c)"
    by (cases "getCPF s \<in> set (enrollment_cpfs h c)")
      (simp_all add: addEnrollment_enrolled addEnrollment_new)
  have new: "getStudent (Enrollment_new s) = s" "teacherEvaluations (Enrollment_new s) = []"
    "selfEvaluations (Enrollment_new s) = []"
    by (simp_all add: Enrollment_new_def getStudent_def)
  have two: "snd (addEnrollment h c1 s) = Inr (Enrollment_new s)
        \<and> snd (addEnrollment (fst (addEnrollment h c1 s)) c2 s) = Inr (Enrollment_new s)
        \<and> arrays (fst (addEnrollment (fst (addEnrollment h c1 s)) c2 s)) (enrollments c1)
            = arrays h (enrollments c1) @ [Enrollment_new s]
        \<and> arrays (fst (addEnrollment (fst (addEnrollment h c1 s)) c2 s)) (enrollments c2)
            = arrays h (enrollments c2) @ [Enrollment_new s]"
    if ne: "enrollments c1 \<noteq> enrollments c2"
      and n1: "getCPF s \<notin> set (enrollment_cpfs h c1)"
      and n2: "getCPF s \<notin> set (enrollment_cpfs h c2)"
  proof -
    define h1 where "h1 = array_write h (enrollments c1)
        (arrays h (enrollments c1) @ [Enrollment_new s])"
    have a1: "addEnrollment h c1 s = (h1, Inr (Enrollment_new s))"
      using n1 by (simp add: addEnrollment_new h1_def)
    have same: "arrays h1 (enrollments c2) = arrays h (enrollments c2)"
      using ne by (simp add: h1_def)
    then have "getCPF s \<notin> set (enrollment_cpfs h1 c2)"
      using n2 by (simp add: enrollment_cpfs_def)
    then have a2: "addEnrollment h1 c2 s =
        (array_write h1 (enrollments c2) (arrays h1 (enrollments c2) @ [Enrollment_new s]),
         Inr (Enrollment_new s))"
      by (rule addEnrollment_new)
    show ?thesis using ne same by (simp add: a1 a2) (simp add: h1_def)
  qed
  have fresh: "enrollments (snd (Class_new h t1 s1 y1 None))
       \<noteq> enrollments (snd (Class_new (fst (Class_new h t1 s1 y1 None)) t2 s2 y2 None))"
    by (simp add: Class_new_def alloc_def)
  from iff new two fresh addEnrollment_enrolled [of s h c] addEnrollment_new [of s h c]
  show ?thesis by blast
qed

theorem addEnrollment_spec_witness:
  "getCPF alice \<in> set (enrollment_cpfs two_heap ess)
   \<and> addEnrollment two_heap ess alice = (two_heap, Inl AlreadyEnrolled)
   \<and> enrollments ess \<noteq> enrollments plc
   \<and> getCPF bob \<notin> set (enrollment_cpfs two_heap ess)
   \<and> getCPF bob \<notin> set (enrollment_cpfs two_heap plc)
   \<and> snd (addEnrollment two_heap ess bob) = Inr (Enrollment_new bob)
   \<and> snd (addEnrollment (fst (addEnrollment two_heap ess bob)) plc bob)
       = Inr (Enrollment_new bob)
   \<and> arrays (fst (addEnrollment (fst (addEnrollment two_heap ess bob)) plc bob))
         (enrollments ess)
       = arrays two_heap (enrollments ess) @ [Enrollment_new bob]
   \<and> arrays (fst (addEnrollment (fst (addEnrollment two_heap ess bob)) plc bob))
         (enrollments plc)
       = arrays two_heap (enrollments plc) @ [Enrollment_new bob]"
proof -
  have in_a: "getCPF alice \<in> set (enrollment_cpfs two_heap ess)"
    by (simp add: two_cpfs getCPF_def alice_def)
  have out_b: "getCPF bob \<notin> set (enrollment_cpfs two_heap ess)"
    "getCPF bob \<notin> set (enrollment_cpfs two_heap plc)"
    by (simp_all add: two_cpfs getCPF_def bob_def)
  have ne: "enrollments ess \<noteq> enrollments plc"
    by (simp add: ess_def plc_def)
  from addEnrollment_spec [of two_heap ess alice ess plc] in_a
  have one: "addEnrollment two_heap ess alice = (two_heap, Inl AlreadyEnrolled)" by blast
  from addEnrollment_spec [of two_heap ess bob ess plc] out_b ne in_a one
  show ?thesis by blast
qed

text \<open>
  As the claim is worded, for every two different classes, it fails on two classes that
  the constructor has built on one array: the first enrollment of a student goes into
  the array of both, so the second class finds the CPF there and refuses the student.
\<close>

theorem addEnrollment_shared_array:
  "enrollments ess_shared = enrollments plc_shared
   \<and> ess_shared \<noteq> plc_shared
   \<and> getClassId ess_shared \<noteq> getClassId plc_shared
   \<and> getCPF bob \<notin> set (enrollment_cpfs shared_heap ess_shared)
   \<and> getCPF bob \<notin> set (enrollment_cpfs shared_heap plc_shared)
   \<and> snd (addEnrollment shared_heap ess_shared bob) = Inr (Enrollment_new bob)
   \<and> snd (addEnrollment (fst (addEnrollment shared_heap ess_shared bob)) plc_shared bob)
       = Inl AlreadyEnrolled"
proof -
  have e: "ess_shared = \<lparr>topic = ''ESS'', semester = 1, year = 2025, enrollments = 0\<rparr>"
    and p: "plc_shared = \<lparr>topic = ''PLC'', semester = 2, year = 2025, enrollments = 0\<rparr>"
    by (simp_all add: ess_shared_def plc_shared_def shared_array_def Class_new_def alloc_def
        empty_heap_def)
  have empty: "arrays shared_heap 0 = []"
    by (simp add: shared_heap_def alloc_def empty_heap_def)
  have ne: "ess_shared \<noteq> plc_shared" by (simp add: e p)
  have ids: "getClassId ess_shared \<noteq> getClassId plc_shared"
    by (simp add: e p getClassId_def)
  have out: "getCPF bob \<notin> set (enrollment_cpfs shared_heap ess_shared)"
    "getCPF bob \<notin> set (enrollment_cpfs shared_heap plc_shared)"
    by (simp_all add: enrollment_cpfs_def e p empty)
  from out(1) have first: "addEnrollment shared_heap ess_shared bob =
      (array_write shared_heap 0 [Enrollment_new bob], Inr (Enrollment_new bob))"
    by (simp add: addEnrollment_new e empty)
  have "getCPF bob \<in> set (enrollment_cpfs (array_write shared_heap 0 [Enrollment_new bob])
      plc_shared)"
    by (simp add: enrollment_cpfs_def p array_write_def Enrollment_new_def getStudent_def)
  then have "addEnrollment (array_write shared_heap 0 [Enrollment_new bob]) plc_shared bob
      = (array_write shared_heap 0 [Enrollment_new bob], Inl AlreadyEnrolled)"
    by (rule addEnrollment_enrolled)
  with ne ids out first show ?thesis by (simp add: e p)
qed
text \<open>
  Claim C8. When no enrollment of the class has the CPF given, \<^verbatim>\<open>removeEnrollment\<close>
  returns false and changes nothing; it raises no error. Otherwise it removes the first
  enrollment with that CPF, keeps the others in their order and returns true. Called
  again with the same CPF after that, it returns false and changes nothing, provided the
  class had one enrollment for one CPF.
\<close>

theorem removeEnrollment_spec:
  "(k \<notin> set (enrollment_cpfs h c) \<longrightarrow> removeEnrollment h c k = (h, False))
   \<and> (k \<in> set (enrollment_cpfs h c) \<longrightarrow>
        (\<exists>ys e zs. arrays h (enrollments c) = ys @ e # zs
           \<and> getCPF (getStudent e) = k
           \<and> k \<notin> set (map (\<lambda>e. getCPF (getStudent e)) ys)
           \<and> removeEnrollment h c k = (array_write h (enrollments c) (ys @ zs), True)))
   \<and> (k \<in> set (enrollment_cpfs h c) \<and> one_enrollment_per_cpf h c \<longrightarrow>
        removeEnrollment (fst (removeEnrollment h c k)) c k
          = (fst (removeEnrollment h c k), False))"
  using removeEnrollment_absent [of k h c] removeEnrollment_present [of k h c]
    removeEnrollment_twice [of h c k]
  by blast

theorem removeEnrollment_spec_witness:
  "''98765432100'' \<notin> set (enrollment_cpfs ess_heap ess)
   \<and> removeEnrollment ess_heap ess ''98765432100'' = (ess_heap, False)
   \<and> ''12345678901'' \<in> set (enrollment_cpfs ess_heap ess)
   \<and> one_enrollment_per_cpf ess_heap ess
   \<and> snd (removeEnrollment ess_heap ess ''12345678901'') = True
   \<and> arrays (fst (removeEnrollment ess_heap ess ''12345678901'')) (enrollments ess) = []
   \<and> removeEnrollment (fst (removeEnrollment ess_heap ess ''12345678901'')) ess ''12345678901''
       = (fst (removeEnrollment ess_heap ess ''12345678901''), False)"
proof -
  have out: "''98765432100'' \<notin> set (enrollment_cpfs ess_heap ess)"
    and inn: "''12345678901'' \<in> set (enrollment_cpfs ess_heap ess)"
    and inv: "one_enrollment_per_cpf ess_heap ess"
    by (simp_all add: ess_cpfs one_enrollment_per_cpf_def)
  from removeEnrollment_spec [of "''98765432100''" ess_heap ess] out
  have absent: "removeEnrollment ess_heap ess ''98765432100'' = (ess_heap, False)" by blast
  from removeEnrollment_spec [of "''12345678901''" ess_heap ess] inn inv
  obtain ys e zs where split: "arrays ess_heap (enrollments ess) = ys @ e # zs"
    and rm: "removeEnrollment ess_heap ess ''12345678901''
        = (array_write ess_heap (enrollments ess) (ys @ zs), True)"
    and twice: "removeEnrollment (fst (removeEnrollment ess_heap ess ''12345678901'')) ess
        ''12345678901'' = (fst (removeEnrollment ess_heap ess ''12345678901''), False)"
    by blast
  from split have "ys = [] \<and> zs = []"
    by (cases ys) (simp_all add: ess_heap_simps)
  with rm have "snd (removeEnrollment ess_heap ess ''12345678901'') = True"
    "arrays (fst (removeEnrollment ess_heap ess ''12345678901'')) (enrollments ess) = []"
    by simp_all
  with out inn inv absent twice show ?thesis by blast
qed

text \<open>
  As the claim is worded, for every class, its last part fails on a class that holds two
  enrollments of one CPF, which the constructor and \<^verbatim>\<open>fromJSON\<close> admit: the first
  call removes one of them, and the second call finds the other and returns true.
\<close>

theorem removeEnrollment_again_true:
  "snd (removeEnrollment twice_heap ess ''12345678901'') = True
   \<and> snd (removeEnrollment (fst (removeEnrollment twice_heap ess ''12345678901'')) ess
           ''12345678901'') = True"
  by (simp add: removeEnrollment_def twice_heap_simps ess_def splice_one_def
      getStudent_def Enrollment_new_def getCPF_def alice_def)

text \<open>
  Claim C10. \<^verbatim>\<open>getEnrollments\<close> returns a new array with the enrollments of the
  class: a reference that is not the one the class holds. Whatever is then written to
  the array returned, elements added or removed, the array of the class is as it was,
  and so are the results of \<^verbatim>\<open>findEnrollmentByStudentCPF\<close>, of \<^verbatim>\<open>toJSON\<close> and of
  another \<^verbatim>\<open>getEnrollments\<close>. The class holds an array of the store.
\<close>

theorem getEnrollments_copy:
  assumes "enrollments c < next_ref h"
  shows "snd (getEnrollments h c) \<noteq> enrollments c
       \<and> arrays (fst (getEnrollments h c)) (snd (getEnrollments h c))
           = arrays h (enrollments c)
       \<and> arrays (array_write (fst (getEnrollments h c)) (snd (getEnrollments h c)) xs)
           (enrollments c) = arrays h (enrollments c)
       \<and> findEnrollmentByStudentCPF
           (array_write (fst (getEnrollments h c)) (snd (getEnrollments h c)) xs) c k
           = findEnrollmentByStudentCPF h c k
       \<and> toJSON (array_write (fst (getEnrollments h c)) (snd (getEnrollments h c)) xs) c
           = toJSON h c
       \<and> arrays
           (fst (getEnrollments
                  (array_write (fst (getEnrollments h c)) (snd (getEnrollments h c)) xs) c))
           (snd (getEnrollments
                  (array_write (fst (getEnrollments h c)) (snd (getEnrollments h c)) xs) c))
           = arrays h (enrollments c)"
proof -
  define h2 where
    "h2 = array_write (fst (getEnrollments h c)) (snd (getEnrollments h c)) xs"
  have fresh: "snd (getEnrollments h c) \<noteq> enrollments c"
    using assms by (simp add: getEnrollments_def)
  have copy: "arrays (fst (getEnrollments h c)) (snd (getEnrollments h c))
      = arrays h (enrollments c)"
    by (simp add: getEnrollments_def)
  have kept: "arrays h2 (enrollments c) = arrays h (enrollments c)"
    using assms by (simp add: h2_def getEnrollments_def)
  then have "findEnrollmentByStudentCPF h2 c k = findEnrollmentByStudentCPF h c k"
    "toJSON h2 c = toJSON h c"
    "arrays (fst (getEnrollments h2 c)) (snd (getEnrollments h2 c)) = arrays h (enrollments c)"
    by (simp_all add: findEnrollmentByStudentCPF_def toJSON_def getEnrollments_def)
  with fresh copy kept show ?thesis unfolding h2_def by blast
qed

theorem getEnrollments_copy_witness:
  "enrollments ess < next_ref ess_heap
   \<and> arrays ess_heap (enrollments ess) = [Enrollment_new alice]
   \<and> snd (getEnrollments ess_heap ess) \<noteq> enrollments ess
   \<and> arrays (array_write (fst (getEnrollments ess_heap ess))
                (snd (getEnrollments ess_heap ess)) [])
         (enrollments ess)
       = arrays ess_heap (enrollments ess)
   \<and> findEnrollmentByStudentCPF
         (array_write (fst (getEnrollments ess_heap ess))
            (snd (getEnrollments ess_heap ess)) []) ess ''12345678901''
       = findEnrollmentByStudentCPF ess_heap ess ''12345678901''"
proof -
  have a: "enrollments ess < next_ref ess_heap" by (simp add: ess_heap_simps)
  have b: "arrays ess_heap (enrollments ess) = [Enrollment_new alice]"
    by (simp add: ess_heap_simps)
  from getEnrollments_copy [OF a, of "[]" "''12345678901''"] a b
  show ?thesis by blast
qed

subsection \<open>The JSON form of a class, written and read back\<close>






subsection \<open>The CPF in the routes and in the searches of Class\<close>

lemma cleanCPF_idem: "cleanCPF (cleanCPF k) = cleanCPF k"
  by (simp add: cleanCPF_def)

lemma find_by_cpf_exact:
  "findEnrollmentByStudentCPF h c k = Some e \<Longrightarrow> getCPF (getStudent e) = k"
  by (auto simp: findEnrollmentByStudentCPF_def find_Some_iff)

text \<open>
  Claim C6. \<^verbatim>\<open>cleanCPF\<close> takes every full stop and every hyphen out of a CPF and is
  idempotent. The routes that get and that delete a student clean the CPF of the path
  before they ask the store, so a formatted CPF and its stripped form get the same answer
  from them. The searches of \<^verbatim>\<open>Class\<close> by CPF do not clean their argument: an
  enrollment they find has exactly the CPF asked for, so when the stripped form of a
  formatted CPF finds an enrollment, the formatted CPF itself does not find that
  enrollment.
\<close>

theorem cpf_normalization:
  "CHR ''.'' \<notin> set (cleanCPF k) \<and> CHR ''-'' \<notin> set (cleanCPF k)
   \<and> cleanCPF (cleanCPF k) = cleanCPF k
   \<and> get_student findStudentByCPF k = get_student findStudentByCPF (cleanCPF k)
   \<and> delete_student removeStudent k = delete_student removeStudent (cleanCPF k)
   \<and> (findEnrollmentByStudentCPF h c k = Some e \<longrightarrow> getCPF (getStudent e) = k)
   \<and> (cleanCPF k \<noteq> k \<and> findEnrollmentByStudentCPF h c (cleanCPF k) = Some e \<longrightarrow>
        findEnrollmentByStudentCPF h c k \<noteq> Some e)"
proof -
  have "findEnrollmentByStudentCPF h c k \<noteq> Some e"
    if "cleanCPF k \<noteq> k" "findEnrollmentByStudentCPF h c (cleanCPF k) = Some e"
    using that find_by_cpf_exact [of h c "cleanCPF k" e] find_by_cpf_exact [of h c k e]
    by auto
  moreover have "CHR ''.'' \<notin> set (cleanCPF k)" "CHR ''-'' \<notin> set (cleanCPF k)"
    by (simp_all add: cleanCPF_def)
  moreover have "get_student findStudentByCPF k = get_student findStudentByCPF (cleanCPF k)"
    "delete_student removeStudent k = delete_student removeStudent (cleanCPF k)"
    by (simp_all add: get_student_def delete_student_def cleanCPF_idem)
  ultimately show ?thesis using cleanCPF_idem [of k] find_by_cpf_exact [of h c k e] by blast
qed

theorem cpf_normalization_witness:
  "cleanCPF ''123.456.789-01'' \<noteq> ''123.456.789-01''
   \<and> findEnrollmentByStudentCPF ess_heap ess (cleanCPF ''123.456.789-01'')
       = Some (Enrollment_new alice)
   \<and> getCPF (getStudent (Enrollment_new alice)) = cleanCPF ''123.456.789-01''
   \<and> findEnrollmentByStudentCPF ess_heap ess ''123.456.789-01'' \<noteq> Some (Enrollment_new alice)"
proof -
  have a: "cleanCPF ''123.456.789-01'' \<noteq> ''123.456.789-01''"
    by (simp add: cleanCPF_def)
  have b: "findEnrollmentByStudentCPF ess_heap ess (cleanCPF ''123.456.789-01'')
      = Some (Enrollment_new alice)"
    by (simp add: cleanCPF_def findEnrollmentByStudentCPF_def ess_heap_simps getStudent_def
        Enrollment_new_def getCPF_def alice_def)
  from cpf_normalization [of "''123.456.789-01''" _ _ ess_heap ess "Enrollment_new alice"]
    cpf_normalization [of "cleanCPF ''123.456.789-01''" _ _ ess_heap ess "Enrollment_new alice"]
    a b
  show ?thesis by blast
qed

text \<open>
  As the claim is worded, with every search by CPF cleaning the CPF first, it fails on
  the searches of \<^verbatim>\<open>Class\<close>: in a class where the student with the CPF 12345678901 is
  enrolled, the formatted CPF 123.456.789-01 finds no enrollment, and
  \<^verbatim>\<open>removeEnrollment\<close> with it removes none, while its stripped form finds the
  enrollment.
\<close>

theorem class_lookup_not_normalized:
  "cleanCPF ''123.456.789-01'' = ''12345678901''
   \<and> findEnrollmentByStudentCPF ess_heap ess ''12345678901'' = Some (Enrollment_new alice)
   \<and> findEnrollmentByStudentCPF ess_heap ess ''123.456.789-01'' = None
   \<and> removeEnrollment ess_heap ess ''123.456.789-01'' = (ess_heap, False)"
  by (simp add: cleanCPF_def findEnrollmentByStudentCPF_def removeEnrollment_def
      ess_heap_simps getStudent_def Enrollment_new_def getCPF_def alice_def)

subsection \<open>recordEvaluation with an invalid grade\<close>

text \<open>
  Claim C5. For an enrollment of the class and any goal, \<^verbatim>\<open>recordEvaluation\<close> with a
  grade that is not MANA, MPA, MA or the empty string fails with \<^verbatim>\<open>InvalidGrade\<close>, a
  \<^verbatim>\<open>ValidationError\<close>, and the store is as it was: no collection of grades of any
  enrollment has changed.
\<close>

theorem recordEvaluation_invalid_grade:
  assumes "studentId \<in> set (enrollment_cpfs h c)"
    and "grade \<notin> {''MANA'', ''MPA'', ''MA'', []}"
  shows "recordEvaluation h c studentId goal grade kind = (h, Inl InvalidGrade)
       \<and> failure_class_of InvalidGrade = ValidationError"
proof -
  from assms(1) obtain i
    where "findIndex (\<lambda>e. getCPF (getStudent e) = studentId) (arrays h (enrollments c)) = Some i"
    using findIndex_by_cpf_None_iff [of studentId h c] by auto
  with assms(2) show ?thesis by (simp add: recordEvaluation_def Let_def)
qed

theorem recordEvaluation_invalid_grade_witness:
  "''12345678901'' \<in> set (enrollment_cpfs ess_heap ess)
   \<and> ''X'' \<notin> {''MANA'', ''MPA'', ''MA'', []}
   \<and> recordEvaluation ess_heap ess ''12345678901'' ''Tests'' ''X'' Self
       = (ess_heap, Inl InvalidGrade)
   \<and> failure_class_of InvalidGrade = ValidationError"
proof -
  have a: "''12345678901'' \<in> set (enrollment_cpfs ess_heap ess)" by (simp add: ess_cpfs)
  have b: "''X'' \<notin> {''MANA'', ''MPA'', ''MA'', []}" by simp
  from recordEvaluation_invalid_grade [OF a b, of "''Tests''" Self] a b
  show ?thesis by blast
qed

end
